theory Spec2Isabelle
  imports Main
begin

section \<open>The authentication routes of the movie review backend\<close>

text \<open>
  This theory embeds \<^verbatim>\<open>src/backend/routes/auth.js\<close>: the three Express handlers
  \<^verbatim>\<open>POST /signup\<close>, \<^verbatim>\<open>POST /signin\<close> and \<^verbatim>\<open>POST /signout\<close>.

  A handler is a function from the request, the process configuration, the values the
  environment supplies during the request (clock, random salt, fresh object id, writes of
  concurrent requests) and the stored users to an outcome: the response that was sent, the
  stored users afterwards and the trace of the effects performed, in program order.

  Scope of the model. A request has the five places that \<^verbatim>\<open>check\<close> reads: body,
  cookies, headers, route parameters and query. A field of a place is absent
  (\<^verbatim>\<open>undefined\<close>) or a string; a string is a list of 8-bit characters and its length
  is the number of its characters, which is what \<^verbatim>\<open>isLength\<close> counts on ASCII text. The
  libraries are modelled by what the handlers use of them:
  express-validator by its selection of a field's instances and the four validators of the
  chains, \<^verbatim>\<open>validator.isEmail\<close> and the two bcrypt functions as parameters (bcrypt
  throws on \<^verbatim>\<open>undefined\<close>), \<^verbatim>\<open>jwt.sign\<close> symbolically (a token is its claims and the key
  that signed it). The store and the signing have no failure but the ones written out: a
  document without a required field or with a duplicate email at save, a missing secret at
  signing.
\<close>

subsection \<open>Requests and responses\<close>

text \<open>\<^verbatim>\<open>req.body\<close>, \<^verbatim>\<open>req.cookies\<close> (filled by \<^verbatim>\<open>cookieParser\<close>), \<^verbatim>\<open>req.headers\<close>
  (names in lower case), \<^verbatim>\<open>req.params\<close> and \<^verbatim>\<open>req.query\<close>.\<close>

type_synonym fields = "string \<rightharpoonup> string"

record request =
  body :: fields
  cookies :: fields
  headers :: fields
  params :: fields
  query :: fields

text \<open>The session token: the payload \<^verbatim>\<open>{ user: { id } }\<close>, the registered claims
  \<^verbatim>\<open>iat\<close> and \<^verbatim>\<open>exp\<close> (seconds), and the secret the signature was made with.\<close>

record token =
  payload_user_id :: string
  iat :: nat
  exp :: nat
  signed_with :: string

text \<open>An element of an \<^verbatim>\<open>errors\<close> array: the objects of \<^verbatim>\<open>errors.array()\<close> carry the
  value, the message, the path of the field and its location; the handlers' own carry the
  message only.\<close>

datatype error_item =
    FieldError (val: "string option") (msg: string) (param: string) (location: string)
  | MsgOnly (msg: string)

datatype reply =
    JsonErrors "error_item list"
  | JsonToken token
  | JsonMsg string
  | Text string

datatype cookie_op =
    SetCookie string token bool bool
  | ClearCookie string

record response =
  status :: nat
  set_cookies :: "cookie_op list"
  sent :: "reply option"

definition res0 :: response where
  "res0 = \<lparr>status = 200, set_cookies = [], sent = None\<rparr>"

definition res_status :: "response \<Rightarrow> nat \<Rightarrow> response" where
  "res_status r n = r\<lparr>status := n\<rparr>"

definition res_json :: "response \<Rightarrow> reply \<Rightarrow> response" where
  "res_json r j = r\<lparr>sent := Some j\<rparr>"

definition res_send :: "response \<Rightarrow> string \<Rightarrow> response" where
  "res_send r s = r\<lparr>sent := Some (Text s)\<rparr>"

text \<open>\<^verbatim>\<open>res.cookie(name, value, { httpOnly, secure })\<close> and \<^verbatim>\<open>res.clearCookie(name)\<close>.\<close>

definition res_cookie :: "response \<Rightarrow> string \<Rightarrow> token \<Rightarrow> bool \<Rightarrow> bool \<Rightarrow> response" where
  "res_cookie r name v httpOnly secure =
     r\<lparr>set_cookies := set_cookies r @ [SetCookie name v httpOnly secure]\<rparr>"

definition res_clearCookie :: "response \<Rightarrow> string \<Rightarrow> response" where
  "res_clearCookie r name = r\<lparr>set_cookies := set_cookies r @ [ClearCookie name]\<rparr>"

subsection \<open>Configuration, libraries, environment\<close>

text \<open>\<^verbatim>\<open>process.env\<close>: a variable is unset or a string.\<close>

record config =
  JWT_SECRET :: "string option"
  NODE_ENV :: "string option"

text \<open>The library functions taken as parameters: \<^verbatim>\<open>validator.isEmail\<close>,
  \<^verbatim>\<open>bcrypt.hash(password, salt)\<close> and \<^verbatim>\<open>bcrypt.compare(password, digest)\<close>, the last
  two on strings.\<close>

record libs =
  isEmail :: "string \<Rightarrow> bool"
  bcrypt_hash :: "string \<Rightarrow> string \<Rightarrow> string"
  bcrypt_compare :: "string \<Rightarrow> string \<Rightarrow> bool"

subsection \<open>The user store\<close>

text \<open>
  Modelled from the spec: \<^verbatim>\<open>models/User\<close>, the mongoose model behind
  \<^verbatim>\<open>User.findOne\<close> and \<^verbatim>\<open>user.save\<close>, is not among the sources. The spec gives a
  user an id assigned at creation, \<^verbatim>\<open>fullName\<close>, \<^verbatim>\<open>username\<close>, an \<^verbatim>\<open>email\<close> that is
  unique across all users as a storage-layer invariant, the password digest and
  \<^verbatim>\<open>createdAt\<close>; the store answers \<^verbatim>\<open>findByEmail(email) -> User|None\<close> and
  \<^verbatim>\<open>create(User) -> User|DuplicateKeyError\<close>.
\<close>

record user =
  u_id :: string
  u_fullName :: string
  u_username :: string
  u_email :: string
  u_password :: string
  u_createdAt :: nat

definition findOne :: "user list \<Rightarrow> string \<Rightarrow> user option" where
  "findOne store e = find (\<lambda>u. u_email u = e) store"

text \<open>The handlers query with the destructured \<^verbatim>\<open>email\<close>, which can be \<^verbatim>\<open>undefined\<close>;
  every stored user has an email, so that query finds nobody.\<close>

definition findOne_query :: "user list \<Rightarrow> string option \<Rightarrow> user option" where
  "findOne_query store q = (case q of None \<Rightarrow> None | Some e \<Rightarrow> findOne store e)"

definition save :: "user list \<Rightarrow> user \<Rightarrow> string + user list" where
  "save store u =
     (if \<exists>v \<in> set store. u_email v = u_email u
      then Inl ''E11000 duplicate key error''
      else Inr (store @ [u]))"

text \<open>What the environment supplies while one request is handled: the clock in seconds,
  the salt \<^verbatim>\<open>bcrypt.genSalt\<close> draws, the id of a new document, and the users that
  concurrent requests store between this request's lookup and its save (each \<^verbatim>\<open>await\<close>
  lets other requests run).\<close>

record ambient =
  now :: nat
  salt :: string
  objectId :: string
  racing :: "user list"

subsection \<open>Effects\<close>

datatype event =
    FindOne "string option"
  | GenSalt nat
  | Hash string string
  | Compare string string
  | Save user
  | Sign string
  | ConsoleError string

record outcome =
  res :: response
  db :: "user list"
  trace :: "event list"

subsection \<open>The validation chains\<close>

text \<open>\<^verbatim>\<open>check(field, message)\<close> selects the field in the five places, in this order; in
  the headers it looks the name up in lower case.\<close>

definition toLowerCase :: "string \<Rightarrow> string" where
  "toLowerCase s =
     map (\<lambda>c. case map_of (zip ''ABCDEFGHIJKLMNOPQRSTUVWXYZ'' ''abcdefghijklmnopqrstuvwxyz'') c of
                None \<Rightarrow> c
              | Some l \<Rightarrow> l) s"

definition locations :: "request \<Rightarrow> (string \<times> fields) list" where
  "locations req =
     [(''body'', body req), (''cookies'', cookies req), (''headers'', headers req),
      (''params'', params req), (''query'', query req)]"

text \<open>The instances of a field: location, path and value. When several places hold a
  value, each of them is an instance and each must pass; when none does, the first place
  stands in with \<^verbatim>\<open>undefined\<close>, so that the error can be reported.\<close>

definition instances :: "request \<Rightarrow> string \<Rightarrow> (string \<times> string \<times> string option) list" where
  "instances req f =
     (let every = map (\<lambda>(loc, m).
                    let path = (if loc = ''headers'' then toLowerCase f else f)
                    in (loc, path, m path))
                  (locations req);
          withValue = filter (\<lambda>(loc, path, v). v \<noteq> None) every
      in if withValue = [] then take 1 every else withValue)"

text \<open>A chain is \<^verbatim>\<open>check(field, message)\<close> followed by validators, each possibly under
  \<^verbatim>\<open>.not()\<close>. Standard validators receive the value as a string, \<^verbatim>\<open>undefined\<close> as the
  empty string; \<^verbatim>\<open>exists()\<close> tests the value itself against \<^verbatim>\<open>undefined\<close>.\<close>

datatype validator = IsEmpty | IsEmailV | IsLength nat | Exists

datatype chain = Check (c_field: string) (c_message: string) (c_steps: "(bool \<times> validator) list")

definition toString :: "string option \<Rightarrow> string" where
  "toString v = (case v of None \<Rightarrow> [] | Some s \<Rightarrow> s)"

fun holds :: "libs \<Rightarrow> validator \<Rightarrow> string option \<Rightarrow> bool" where
  "holds L IsEmpty v = (length (toString v) = 0)"
| "holds L IsEmailV v = isEmail L (toString v)"
| "holds L (IsLength m) v = (m \<le> length (toString v))"
| "holds L Exists v = (v \<noteq> None)"

text \<open>Every validator of a chain runs on every instance (no chain here uses \<^verbatim>\<open>bail\<close>); a
  validator adds an error when it fails, a negated one when it holds.\<close>

definition run_chain :: "libs \<Rightarrow> request \<Rightarrow> chain \<Rightarrow> error_item list" where
  "run_chain L req c =
     concat (map (\<lambda>(negated, f).
               concat (map (\<lambda>(loc, path, v).
                         if (if negated then holds L f v else \<not> holds L f v)
                         then [FieldError v (c_message c) path loc]
                         else [])
                       (instances req (c_field c))))
             (c_steps c))"

text \<open>The chains are middleware run in the order of the array; \<^verbatim>\<open>validationResult(req)\<close>
  collects their errors in that order, and the handlers send \<^verbatim>\<open>errors.array()\<close>, all of
  them.\<close>

definition validationResult :: "libs \<Rightarrow> chain list \<Rightarrow> request \<Rightarrow> error_item list" where
  "validationResult L cs req = concat (map (run_chain L req) cs)"

definition signup_checks :: "chain list" where
  "signup_checks =
     [Check ''fullName'' ''Full name is required'' [(True, IsEmpty)],
      Check ''username'' ''Username is required'' [(True, IsEmpty)],
      Check ''email'' ''Please include a valid email'' [(False, IsEmailV)],
      Check ''password'' ''Please enter a password with 6 or more characters''
        [(False, IsLength 6)]]"

definition signin_checks :: "chain list" where
  "signin_checks =
     [Check ''email'' ''Please include a valid email'' [(False, IsEmailV)],
      Check ''password'' ''Password is required'' [(False, Exists)]]"

subsection \<open>Token signing\<close>

text \<open>\<^verbatim>\<open>jwt.sign(payload, secret, { expiresIn: '24h' }, callback)\<close>: a falsy secret (unset or
  empty) is reported to the callback at once, inside the call; otherwise the token carries
  \<^verbatim>\<open>iat\<close> = now and \<^verbatim>\<open>exp\<close> = \<^verbatim>\<open>iat\<close> + 24h.\<close>

definition expiresIn_24h :: nat where
  "expiresIn_24h = 24 * 60 * 60"

definition jwt_sign :: "string \<Rightarrow> string option \<Rightarrow> nat \<Rightarrow> string + token" where
  "jwt_sign uid secret t =
     (case secret of
        None \<Rightarrow> Inl ''secretOrPrivateKey must have a value''
      | Some k \<Rightarrow>
          if k = [] then Inl ''secretOrPrivateKey must have a value''
          else Inr \<lparr>payload_user_id = uid, iat = t, exp = t + expiresIn_24h, signed_with = k\<rparr>)"

subsection \<open>The handlers\<close>

text \<open>The \<^verbatim>\<open>catch\<close> block of signup and signin.\<close>

definition server_error :: "response \<Rightarrow> response" where
  "server_error r = res_send (res_status r 500) ''Server error''"

text \<open>The callback of \<^verbatim>\<open>jwt.sign\<close> and the \<^verbatim>\<open>catch\<close> around it: an error is thrown,
  logged and answered with 500; a token is set as cookie and sent.\<close>

definition issue :: "config \<Rightarrow> ambient \<Rightarrow> string \<Rightarrow> user list \<Rightarrow> event list \<Rightarrow> outcome" where
  "issue cfg amb uid store tr =
     (case jwt_sign uid (JWT_SECRET cfg) (now amb) of
        Inl err \<Rightarrow>
          \<lparr>res = server_error res0, db = store, trace = tr @ [Sign uid, ConsoleError err]\<rparr>
      | Inr tok \<Rightarrow>
          \<lparr>res = res_json (res_cookie res0 ''token'' tok True (NODE_ENV cfg = Some ''production''))
                   (JsonToken tok),
           db = store, trace = tr @ [Sign uid]\<rparr>)"

text \<open>Signup after validation, on the four values destructured from \<^verbatim>\<open>req.body\<close>. Each
  can be \<^verbatim>\<open>undefined\<close>, since validation also passes on a value found outside the body:
  \<^verbatim>\<open>bcrypt.hash\<close> throws on an \<^verbatim>\<open>undefined\<close> password, and the save refuses a document
  without \<^verbatim>\<open>fullName\<close>, \<^verbatim>\<open>username\<close> or \<^verbatim>\<open>email\<close> (the user of the spec has all three)
  before it reaches the store.\<close>

definition signup_try ::
  "libs \<Rightarrow> config \<Rightarrow> ambient \<Rightarrow> string option \<Rightarrow> string option \<Rightarrow> string option \<Rightarrow>
   string option \<Rightarrow> user list \<Rightarrow> outcome" where
  "signup_try L cfg amb fullName username email password store =
     (case findOne_query store email of
        Some existing \<Rightarrow>
          \<lparr>res = res_json (res_status res0 400) (JsonErrors [MsgOnly ''User already exists'']),
           db = store, trace = [FindOne email]\<rparr>
      | None \<Rightarrow>
          (case password of
             None \<Rightarrow>
               \<lparr>res = server_error res0, db = store,
                trace = [FindOne email, GenSalt 10,
                         ConsoleError ''Illegal arguments: undefined, string'']\<rparr>
           | Some pw \<Rightarrow>
               (case (fullName, username, email) of
                  (Some fn, Some un, Some em) \<Rightarrow>
                    let user = \<lparr>u_id = objectId amb, u_fullName = fn, u_username = un,
                                u_email = em, u_password = pw, u_createdAt = now amb\<rparr>;
                        u = user\<lparr>u_password := bcrypt_hash L pw (salt amb)\<rparr>;
                        tr = [FindOne email, GenSalt 10, Hash pw (salt amb), Save u]
                    in (case save (store @ racing amb) u of
                          Inl err \<Rightarrow>
                            \<lparr>res = server_error res0, db = store @ racing amb,
                             trace = tr @ [ConsoleError err]\<rparr>
                        | Inr store' \<Rightarrow> issue cfg amb (u_id u) store' tr)
                | _ \<Rightarrow>
                    \<lparr>res = server_error res0, db = store @ racing amb,
                     trace = [FindOne email, GenSalt 10, Hash pw (salt amb),
                              ConsoleError ''User validation failed'']\<rparr>)))"

definition signup :: "libs \<Rightarrow> config \<Rightarrow> ambient \<Rightarrow> request \<Rightarrow> user list \<Rightarrow> outcome" where
  "signup L cfg amb req store =
     (let errors = validationResult L signup_checks req in
      if errors \<noteq> [] then
        \<lparr>res = res_json (res_status res0 400) (JsonErrors errors), db = store, trace = []\<rparr>
      else
        signup_try L cfg amb (body req ''fullName'') (body req ''username'')
          (body req ''email'') (body req ''password'') store)"

text \<open>Signin after validation: \<^verbatim>\<open>bcrypt.compare\<close> throws on an \<^verbatim>\<open>undefined\<close>
  password.\<close>

definition signin_try ::
  "libs \<Rightarrow> config \<Rightarrow> ambient \<Rightarrow> string option \<Rightarrow> string option \<Rightarrow> user list \<Rightarrow> outcome" where
  "signin_try L cfg amb email password store =
     (case findOne_query store email of
        None \<Rightarrow>
          \<lparr>res = res_json (res_status res0 400) (JsonErrors [MsgOnly ''Invalid Credentials'']),
           db = store, trace = [FindOne email]\<rparr>
      | Some u \<Rightarrow>
          (case password of
             None \<Rightarrow>
               \<lparr>res = server_error res0, db = store,
                trace = [FindOne email, ConsoleError ''Illegal arguments: undefined, string'']\<rparr>
           | Some pw \<Rightarrow>
               if \<not> bcrypt_compare L pw (u_password u) then
                 \<lparr>res = res_json (res_status res0 400)
                          (JsonErrors [MsgOnly ''Invalid Credentials'']),
                  db = store, trace = [FindOne email, Compare pw (u_password u)]\<rparr>
               else
                 issue cfg amb (u_id u) store [FindOne email, Compare pw (u_password u)]))"

definition signin :: "libs \<Rightarrow> config \<Rightarrow> ambient \<Rightarrow> request \<Rightarrow> user list \<Rightarrow> outcome" where
  "signin L cfg amb req store =
     (let errors = validationResult L signin_checks req in
      if errors \<noteq> [] then
        \<lparr>res = res_json (res_status res0 400) (JsonErrors errors), db = store, trace = []\<rparr>
      else
        signin_try L cfg amb (body req ''email'') (body req ''password'') store)"

definition signout :: "request \<Rightarrow> user list \<Rightarrow> outcome" where
  "signout req store =
     \<lparr>res = res_json (res_clearCookie res0 ''token'') (JsonMsg ''Signed out successfully''),
      db = store, trace = []\<rparr>"

subsection \<open>The rules in words, for comparison\<close>

text \<open>The values of a field in the five places of a request, the header under the given
  name; and the strings that a rule is applied to: the values that are there, or the empty
  string once when the field is nowhere.\<close>

definition places :: "request \<Rightarrow> string \<Rightarrow> string \<Rightarrow> string option list" where
  "places req f h = [body req f, cookies req f, headers req h, params req f, query req f]"

definition given :: "string option list \<Rightarrow> string list" where
  "given ps = (if [s. Some s \<leftarrow> ps] = [] then [[]] else [s. Some s \<leftarrow> ps])"

text \<open>Trimming as the spec's rule for \<^verbatim>\<open>fullName\<close> and \<^verbatim>\<open>username\<close> has it: white space
  removed at both ends.\<close>

definition is_space :: "char \<Rightarrow> bool" where
  "is_space c = (c = CHR '' '' \<or> c = CHR 0x09 \<or> c = CHR 0x0A \<or> c = CHR 0x0D)"

definition trimmed :: "string \<Rightarrow> string" where
  "trimmed s = rev (dropWhile is_space (rev (dropWhile is_space s)))"

definition is_sign :: "event \<Rightarrow> bool" where
  "is_sign e = (case e of Sign uid \<Rightarrow> True | _ \<Rightarrow> False)"

subsection \<open>Concrete inputs\<close>

text \<open>Stand-ins for the library parameters, used where a statement is evaluated at a
  concrete request: an address test that looks for \<^verbatim>\<open>@\<close> and a later dot, and a
  digest that prefixes the password with the salt between two \<^verbatim>\<open>$\<close>.\<close>

definition sample_isEmail :: "string \<Rightarrow> bool" where
  "sample_isEmail s =
     (CHR ''@'' \<in> set s \<and> CHR ''.'' \<in> set (dropWhile (\<lambda>c. c \<noteq> CHR ''@'') s))"

definition sample_hash :: "string \<Rightarrow> string \<Rightarrow> string" where
  "sample_hash p s = CHR ''$'' # s @ CHR ''$'' # p"

definition sample_compare :: "string \<Rightarrow> string \<Rightarrow> bool" where
  "sample_compare p d =
     (case d of
        [] \<Rightarrow> False
      | c # r \<Rightarrow> c = CHR ''$'' \<and> dropWhile (\<lambda>x. x \<noteq> CHR ''$'') r = CHR ''$'' # p)"

definition sample_libs :: libs where
  "sample_libs =
     \<lparr>isEmail = sample_isEmail, bcrypt_hash = sample_hash, bcrypt_compare = sample_compare\<rparr>"

definition sample_cfg :: config where
  "sample_cfg = \<lparr>JWT_SECRET = Some ''s3cret'', NODE_ENV = Some ''production''\<rparr>"

definition no_secret_cfg :: config where
  "no_secret_cfg = \<lparr>JWT_SECRET = None, NODE_ENV = Some ''production''\<rparr>"

definition sample_amb :: ambient where
  "sample_amb = \<lparr>now = 1000, salt = ''abc'', objectId = ''u1'', racing = []\<rparr>"

definition ann :: user where
  "ann = \<lparr>u_id = ''u1'', u_fullName = ''Ann Lee'', u_username = ''annlee'',
           u_email = ''ann@example.com'', u_password = ''$abc$secret1'', u_createdAt = 1000\<rparr>"

definition rival :: user where
  "rival = \<lparr>u_id = ''u0'', u_fullName = ''Ann L.'', u_username = ''ann2'',
             u_email = ''ann@example.com'', u_password = ''$xyz$hunter22'', u_createdAt = 999\<rparr>"

definition racing_amb :: ambient where
  "racing_amb = \<lparr>now = 1000, salt = ''abc'', objectId = ''u1'', racing = [rival]\<rparr>"

text \<open>A request whose fields are all in the body.\<close>

definition in_body :: "fields \<Rightarrow> request" where
  "in_body b =
     \<lparr>body = b, cookies = Map.empty, headers = Map.empty, params = Map.empty,
      query = Map.empty\<rparr>"

definition ann_fields :: fields where
  "ann_fields =
     [''fullName'' \<mapsto> ''Ann Lee'', ''username'' \<mapsto> ''annlee'',
      ''email'' \<mapsto> ''ann@example.com'', ''password'' \<mapsto> ''secret1'']"

definition ann_signup :: request where
  "ann_signup = in_body ann_fields"

definition blank_signup :: request where
  "blank_signup =
     in_body [''fullName'' \<mapsto> ''   '', ''username'' \<mapsto> ''annlee'',
              ''email'' \<mapsto> ''ann@example.com'', ''password'' \<mapsto> ''secret1'']"

definition bad_signup :: request where
  "bad_signup =
     in_body [''username'' \<mapsto> [], ''email'' \<mapsto> ''ann.example.com'',
              ''password'' \<mapsto> ''abc'']"

text \<open>Ann's signup with a cookie \<^verbatim>\<open>email=nope\<close>; with the address \<^verbatim>\<open>nope\<close> in the body
  and \<^verbatim>\<open>nope2\<close> in a cookie; and with an empty header \<^verbatim>\<open>fullName\<close>.\<close>

definition cookie_signup :: request where
  "cookie_signup =
     \<lparr>body = ann_fields, cookies = [''email'' \<mapsto> ''nope''], headers = Map.empty,
      params = Map.empty, query = Map.empty\<rparr>"


definition header_signup :: request where
  "header_signup =
     \<lparr>body = ann_fields, cookies = Map.empty, headers = [''fullname'' \<mapsto> []],
      params = Map.empty, query = Map.empty\<rparr>"

definition ann_signin :: request where
  "ann_signin = in_body [''email'' \<mapsto> ''ann@example.com'', ''password'' \<mapsto> ''secret1'']"

definition ann_wrong :: request where
  "ann_wrong = in_body [''email'' \<mapsto> ''ann@example.com'', ''password'' \<mapsto> ''wrong'']"

definition bob_signin :: request where
  "bob_signin = in_body [''email'' \<mapsto> ''bob@example.com'', ''password'' \<mapsto> ''secret1'']"

definition bad_signin :: request where
  "bad_signin = in_body [''email'' \<mapsto> ''ann'']"

section \<open>Basic facts\<close>

subsection \<open>Responses\<close>

lemma res_400:
  "res_json (res_status res0 400) j = \<lparr>status = 400, set_cookies = [], sent = Some j\<rparr>"
  by (simp add: res_json_def res_status_def res0_def)

lemma res_500:
  "server_error res0 = \<lparr>status = 500, set_cookies = [], sent = Some (Text ''Server error'')\<rparr>"
  by (simp add: server_error_def res_send_def res_status_def res0_def)

subsection \<open>Instances of a field\<close>

lemma toLowerCase_fields:
  "toLowerCase ''fullName'' = ''fullname''"
  "toLowerCase ''username'' = ''username''"
  "toLowerCase ''email'' = ''email''"
  "toLowerCase ''password'' = ''password''"
  by (simp_all add: toLowerCase_def)

lemma instances_unfold:
  "instances req f =
     (let every = [(''body'', f, body req f), (''cookies'', f, cookies req f),
                   (''headers'', toLowerCase f, headers req (toLowerCase f)),
                   (''params'', f, params req f), (''query'', f, query req f)];
          withValue = filter (\<lambda>(loc, path, v). v \<noteq> None) every
      in if withValue = [] then take 1 every else withValue)"
  by (simp add: instances_def locations_def Let_def)

lemma instances_body_only:
  assumes "cookies req f = None" and "headers req (toLowerCase f) = None"
    and "params req f = None" and "query req f = None"
  shows "instances req f = [(''body'', f, body req f)]"
  using assms by (cases "body req f") (simp_all add: instances_unfold)

lemma instances_in_body: "instances (in_body b) f = [(''body'', f, b f)]"
  by (rule instances_body_only [of "in_body b" f, simplified in_body_def, simplified,
        folded in_body_def])

text \<open>The strings the validators of a chain see are the given values of the field.\<close>

lemma instances_strings:
  "map (\<lambda>(loc, path, v). toString v) (instances req f) = given (places req f (toLowerCase f))"
  by (cases "body req f"; cases "cookies req f"; cases "headers req (toLowerCase f)";
      cases "params req f"; cases "query req f")
    (simp_all add: instances_unfold places_def given_def toString_def)

lemma all_instances:
  "(\<forall>i \<in> set (instances req f). P (toString (snd (snd i)))) \<longleftrightarrow>
   (\<forall>s \<in> set (given (places req f (toLowerCase f))). P s)"
proof -
  have "set (given (places req f (toLowerCase f))) =
      (\<lambda>(loc, path, v). toString v) ` set (instances req f)"
    by (simp add: instances_strings [symmetric])
  then show ?thesis by auto
qed


subsection \<open>Validation\<close>

lemma run_chain_single:
  "run_chain L req (Check f m [(negated, v)]) =
     concat (map (\<lambda>i. if (if negated then holds L v (snd (snd i))
                           else \<not> holds L v (snd (snd i)))
                       then [FieldError (snd (snd i)) m (fst (snd i)) (fst i)] else [])
              (instances req f))"
  by (simp add: run_chain_def split_def cong: if_cong)

lemma flagged_empty_iff:
  "concat (map (\<lambda>i. if bad i then [E i] else []) xs) = [] \<longleftrightarrow> (\<forall>i \<in> set xs. \<not> bad i)"
  by (induction xs) auto


lemma signup_errors_chains:
  "validationResult L signup_checks req =
     run_chain L req (Check ''fullName'' ''Full name is required'' [(True, IsEmpty)]) @
     run_chain L req (Check ''username'' ''Username is required'' [(True, IsEmpty)]) @
     run_chain L req (Check ''email'' ''Please include a valid email'' [(False, IsEmailV)]) @
     run_chain L req (Check ''password'' ''Please enter a password with 6 or more characters''
        [(False, IsLength 6)])"
  by (simp add: validationResult_def signup_checks_def)

lemma signin_errors_chains:
  "validationResult L signin_checks req =
     run_chain L req (Check ''email'' ''Please include a valid email'' [(False, IsEmailV)]) @
     run_chain L req (Check ''password'' ''Password is required'' [(False, Exists)])"
  by (simp add: validationResult_def signin_checks_def)

text \<open>For a request whose fields are all in the body, one test per chain.\<close>

lemma signup_errors_in_body:
  "validationResult L signup_checks (in_body b) =
     (if toString (b ''fullName'') = []
      then [FieldError (b ''fullName'') ''Full name is required'' ''fullName'' ''body'']
      else []) @
     (if toString (b ''username'') = []
      then [FieldError (b ''username'') ''Username is required'' ''username'' ''body'']
      else []) @
     (if \<not> isEmail L (toString (b ''email''))
      then [FieldError (b ''email'') ''Please include a valid email'' ''email'' ''body'']
      else []) @
     (if length (toString (b ''password'')) < 6
      then [FieldError (b ''password'')
              ''Please enter a password with 6 or more characters'' ''password'' ''body'']
      else [])"
  by (simp add: signup_errors_chains run_chain_single instances_in_body not_le)

lemma signin_errors_in_body:
  "validationResult L signin_checks (in_body b) =
     (if \<not> isEmail L (toString (b ''email''))
      then [FieldError (b ''email'') ''Please include a valid email'' ''email'' ''body'']
      else []) @
     (if b ''password'' = None
      then [FieldError (b ''password'') ''Password is required'' ''password'' ''body'']
      else [])"
  by (simp add: signin_errors_chains run_chain_single instances_in_body)

lemma body_in_body: "body (in_body b) = b"
  by (simp add: in_body_def)

subsection \<open>The two branches of each handler\<close>

lemma signup_invalid:
  "validationResult L signup_checks req \<noteq> [] \<Longrightarrow>
   signup L cfg amb req store =
     \<lparr>res = res_json (res_status res0 400) (JsonErrors (validationResult L signup_checks req)),
      db = store, trace = []\<rparr>"
  by (simp add: signup_def Let_def)

lemma signup_passed:
  "validationResult L signup_checks req = [] \<Longrightarrow>
   signup L cfg amb req store =
     signup_try L cfg amb (body req ''fullName'') (body req ''username'')
       (body req ''email'') (body req ''password'') store"
  by (simp add: signup_def Let_def)

lemma signup_valid:
  "validationResult L signup_checks req = [] \<Longrightarrow>
   body req ''fullName'' = Some fn \<Longrightarrow> body req ''username'' = Some un \<Longrightarrow>
   body req ''email'' = Some em \<Longrightarrow> body req ''password'' = Some pw \<Longrightarrow>
   signup L cfg amb req store =
     signup_try L cfg amb (Some fn) (Some un) (Some em) (Some pw) store"
  by (simp add: signup_passed)

lemma signin_invalid:
  "validationResult L signin_checks req \<noteq> [] \<Longrightarrow>
   signin L cfg amb req store =
     \<lparr>res = res_json (res_status res0 400) (JsonErrors (validationResult L signin_checks req)),
      db = store, trace = []\<rparr>"
  by (simp add: signin_def Let_def)

lemma signin_passed:
  "validationResult L signin_checks req = [] \<Longrightarrow>
   signin L cfg amb req store =
     signin_try L cfg amb (body req ''email'') (body req ''password'') store"
  by (simp add: signin_def Let_def)

lemma signin_valid:
  "validationResult L signin_checks req = [] \<Longrightarrow>
   body req ''email'' = Some em \<Longrightarrow> body req ''password'' = Some pw \<Longrightarrow>
   signin L cfg amb req store = signin_try L cfg amb (Some em) (Some pw) store"
  by (simp add: signin_passed)

subsection \<open>Signing and the store\<close>

lemma expiresIn_24h_seconds: "expiresIn_24h = 86400"
  by (simp add: expiresIn_24h_def)

lemma issue_ok:
  "JWT_SECRET cfg = Some k \<Longrightarrow> k \<noteq> [] \<Longrightarrow>
   issue cfg amb uid store tr =
     \<lparr>res = \<lparr>status = 200,
              set_cookies = [SetCookie ''token''
                 \<lparr>payload_user_id = uid, iat = now amb, exp = now amb + expiresIn_24h,
                  signed_with = k\<rparr>
                 True (NODE_ENV cfg = Some ''production'')],
              sent = Some (JsonToken
                 \<lparr>payload_user_id = uid, iat = now amb, exp = now amb + expiresIn_24h,
                  signed_with = k\<rparr>)\<rparr>,
      db = store, trace = tr @ [Sign uid]\<rparr>"
  by (simp add: issue_def jwt_sign_def res_json_def res_cookie_def res0_def)

lemma issue_fails:
  "jwt_sign uid (JWT_SECRET cfg) (now amb) = Inl err \<Longrightarrow>
   issue cfg amb uid store tr =
     \<lparr>res = server_error res0, db = store, trace = tr @ [Sign uid, ConsoleError err]\<rparr>"
  by (simp add: issue_def)

lemma jwt_sign_fails_iff:
  "(\<exists>err. jwt_sign uid secret t = Inl err) \<longleftrightarrow> (secret = None \<or> secret = Some [])"
  by (auto simp add: jwt_sign_def split: option.splits)

lemma issue_db: "db (issue cfg amb uid store tr) = store"
  by (simp add: issue_def split: sum.splits)

lemma issue_trace_no_save: "Save u \<notin> set tr \<Longrightarrow> Save u \<notin> set (trace (issue cfg amb uid store tr))"
  by (simp add: issue_def split: sum.splits)

lemma findOne_None_iff: "findOne store e = None \<longleftrightarrow> (\<forall>v \<in> set store. u_email v \<noteq> e)"
  by (auto simp add: findOne_def find_None_iff)

lemma findOne_Some_email: "findOne store e = Some u \<Longrightarrow> u \<in> set store \<and> u_email u = e"
  by (auto simp add: findOne_def find_Some_iff)

lemma findOne_query_Some: "findOne_query store q = Some u \<Longrightarrow> \<exists>e. q = Some e \<and> findOne store e = Some u"
  by (cases q) (simp_all add: findOne_query_def)

subsection \<open>The branches after validation\<close>

lemma signup_try_found:
  "findOne store em = Some x \<Longrightarrow>
   signup_try L cfg amb fn un (Some em) pw store =
     \<lparr>res = res_json (res_status res0 400) (JsonErrors [MsgOnly ''User already exists'']),
      db = store, trace = [FindOne (Some em)]\<rparr>"
  by (simp add: signup_try_def findOne_query_def)

lemma signup_try_conflict:
  assumes absent: "findOne store em = None"
    and rival: "\<exists>v \<in> set (racing amb). u_email v = em"
  shows "signup_try L cfg amb (Some fn) (Some un) (Some em) (Some pw) store =
     \<lparr>res = server_error res0, db = store @ racing amb,
      trace = [FindOne (Some em), GenSalt 10, Hash pw (salt amb),
               Save \<lparr>u_id = objectId amb, u_fullName = fn, u_username = un, u_email = em,
                     u_password = bcrypt_hash L pw (salt amb), u_createdAt = now amb\<rparr>,
               ConsoleError ''E11000 duplicate key error'']\<rparr>"
proof -
  from rival have "\<exists>v \<in> set (store @ racing amb). u_email v = em"
    by auto
  with absent show ?thesis
    by (simp add: signup_try_def findOne_query_def Let_def save_def del: set_append)
qed

lemma signup_try_saved:
  assumes absent: "findOne store em = None"
    and no_rival: "\<forall>v \<in> set (racing amb). u_email v \<noteq> em"
  shows "signup_try L cfg amb (Some fn) (Some un) (Some em) (Some pw) store =
     issue cfg amb (objectId amb)
       (store @ racing amb @
          [\<lparr>u_id = objectId amb, u_fullName = fn, u_username = un, u_email = em,
            u_password = bcrypt_hash L pw (salt amb), u_createdAt = now amb\<rparr>])
       [FindOne (Some em), GenSalt 10, Hash pw (salt amb),
        Save \<lparr>u_id = objectId amb, u_fullName = fn, u_username = un, u_email = em,
              u_password = bcrypt_hash L pw (salt amb), u_createdAt = now amb\<rparr>]"
proof -
  from absent have "\<forall>v \<in> set store. u_email v \<noteq> em"
    by (simp add: findOne_None_iff)
  with no_rival have "\<not> (\<exists>v \<in> set (store @ racing amb). u_email v = em)"
    by auto
  with absent show ?thesis
    by (simp add: signup_try_def findOne_query_def Let_def save_def del: set_append)
qed

lemma signin_try_unknown:
  "findOne store em = None \<Longrightarrow>
   signin_try L cfg amb (Some em) pw store =
     \<lparr>res = res_json (res_status res0 400) (JsonErrors [MsgOnly ''Invalid Credentials'']),
      db = store, trace = [FindOne (Some em)]\<rparr>"
  by (simp add: signin_try_def findOne_query_def)

lemma signin_try_mismatch:
  "findOne store em = Some u \<Longrightarrow> \<not> bcrypt_compare L pw (u_password u) \<Longrightarrow>
   signin_try L cfg amb (Some em) (Some pw) store =
     \<lparr>res = res_json (res_status res0 400) (JsonErrors [MsgOnly ''Invalid Credentials'']),
      db = store, trace = [FindOne (Some em), Compare pw (u_password u)]\<rparr>"
  by (simp add: signin_try_def findOne_query_def)

lemma signin_try_match:
  "findOne store em = Some u \<Longrightarrow> bcrypt_compare L pw (u_password u) \<Longrightarrow>
   signin_try L cfg amb (Some em) (Some pw) store =
     issue cfg amb (u_id u) store [FindOne (Some em), Compare pw (u_password u)]"
  by (simp add: signin_try_def findOne_query_def)

lemma signin_try_db: "db (signin_try L cfg amb em pw store) = store"
  by (simp add: signin_try_def issue_db split: option.splits)

lemma signin_db: "db (signin L cfg amb req store) = store"
  by (simp add: signin_def Let_def signin_try_db)

lemma signin_try_no_save: "Save u \<notin> set (trace (signin_try L cfg amb em pw store))"
  by (simp add: signin_try_def issue_trace_no_save split: option.splits)

lemma signin_no_save: "Save u \<notin> set (trace (signin L cfg amb req store))"
  by (simp add: signin_def Let_def signin_try_no_save)

subsection \<open>Case analysis of the handlers\<close>

lemma issue_cases:
  obtains (fails) err where "jwt_sign uid (JWT_SECRET cfg) (now amb) = Inl err"
      "issue cfg amb uid store tr =
         \<lparr>res = server_error res0, db = store, trace = tr @ [Sign uid, ConsoleError err]\<rparr>"
  | (ok) k where "JWT_SECRET cfg = Some k" "k \<noteq> []"
      "jwt_sign uid (JWT_SECRET cfg) (now amb) =
         Inr \<lparr>payload_user_id = uid, iat = now amb, exp = now amb + expiresIn_24h,
              signed_with = k\<rparr>"
      "issue cfg amb uid store tr =
         \<lparr>res = \<lparr>status = 200,
              set_cookies = [SetCookie ''token''
                 \<lparr>payload_user_id = uid, iat = now amb, exp = now amb + expiresIn_24h,
                  signed_with = k\<rparr>
                 True (NODE_ENV cfg = Some ''production'')],
              sent = Some (JsonToken
                 \<lparr>payload_user_id = uid, iat = now amb, exp = now amb + expiresIn_24h,
                  signed_with = k\<rparr>)\<rparr>,
          db = store, trace = tr @ [Sign uid]\<rparr>"
proof (cases "jwt_sign uid (JWT_SECRET cfg) (now amb)")
  case (Inl err)
  then show ?thesis using fails issue_fails by blast
next
  case (Inr tok)
  then obtain k where k: "JWT_SECRET cfg = Some k" "k \<noteq> []"
    by (auto simp add: jwt_sign_def split: option.splits if_splits)
  then have "jwt_sign uid (JWT_SECRET cfg) (now amb) =
      Inr \<lparr>payload_user_id = uid, iat = now amb, exp = now amb + expiresIn_24h,
           signed_with = k\<rparr>"
    by (simp add: jwt_sign_def)
  with k show ?thesis using ok issue_ok by blast
qed

lemma signup_cases:
  obtains (invalid) "validationResult L signup_checks req \<noteq> []"
      "signup L cfg amb req store =
         \<lparr>res = res_json (res_status res0 400) (JsonErrors (validationResult L signup_checks req)),
          db = store, trace = []\<rparr>"
  | (passed) "validationResult L signup_checks req = []"
      "signup L cfg amb req store =
         signup_try L cfg amb (body req ''fullName'') (body req ''username'')
           (body req ''email'') (body req ''password'') store"
  using signup_invalid signup_passed by blast

lemma signin_cases:
  obtains (invalid) "validationResult L signin_checks req \<noteq> []"
      "signin L cfg amb req store =
         \<lparr>res = res_json (res_status res0 400) (JsonErrors (validationResult L signin_checks req)),
          db = store, trace = []\<rparr>"
  | (passed) "validationResult L signin_checks req = []"
      "signin L cfg amb req store =
         signin_try L cfg amb (body req ''email'') (body req ''password'') store"
  using signin_invalid signin_passed by blast

lemma signup_try_cases:
  obtains (found) x where "findOne_query store emo = Some x"
      "signup_try L cfg amb fno uno emo pwo store =
         \<lparr>res = res_json (res_status res0 400) (JsonErrors [MsgOnly ''User already exists'']),
          db = store, trace = [FindOne emo]\<rparr>"
  | (no_password) "findOne_query store emo = None" "pwo = None"
      "signup_try L cfg amb fno uno emo pwo store =
         \<lparr>res = server_error res0, db = store,
          trace = [FindOne emo, GenSalt 10,
                   ConsoleError ''Illegal arguments: undefined, string'']\<rparr>"
  | (refused) pw where "findOne_query store emo = None" "pwo = Some pw"
      "signup_try L cfg amb fno uno emo pwo store =
         \<lparr>res = server_error res0, db = store @ racing amb,
          trace = [FindOne emo, GenSalt 10, Hash pw (salt amb),
                   ConsoleError ''User validation failed'']\<rparr>"
  | (conflict) fn un em pw where "fno = Some fn" "uno = Some un" "emo = Some em" "pwo = Some pw"
      "findOne store em = None" "\<exists>v \<in> set (racing amb). u_email v = em"
      "signup_try L cfg amb fno uno emo pwo store =
         \<lparr>res = server_error res0, db = store @ racing amb,
          trace = [FindOne (Some em), GenSalt 10, Hash pw (salt amb),
               Save \<lparr>u_id = objectId amb, u_fullName = fn, u_username = un, u_email = em,
                     u_password = bcrypt_hash L pw (salt amb), u_createdAt = now amb\<rparr>,
               ConsoleError ''E11000 duplicate key error'']\<rparr>"
  | (saved) fn un em pw where "fno = Some fn" "uno = Some un" "emo = Some em" "pwo = Some pw"
      "findOne store em = None" "\<forall>v \<in> set (racing amb). u_email v \<noteq> em"
      "signup_try L cfg amb fno uno emo pwo store =
         issue cfg amb (objectId amb)
           (store @ racing amb @
              [\<lparr>u_id = objectId amb, u_fullName = fn, u_username = un, u_email = em,
                u_password = bcrypt_hash L pw (salt amb), u_createdAt = now amb\<rparr>])
           [FindOne (Some em), GenSalt 10, Hash pw (salt amb),
            Save \<lparr>u_id = objectId amb, u_fullName = fn, u_username = un, u_email = em,
                  u_password = bcrypt_hash L pw (salt amb), u_createdAt = now amb\<rparr>]"
proof (cases "findOne_query store emo")
  case (Some x)
  then have "signup_try L cfg amb fno uno emo pwo store =
         \<lparr>res = res_json (res_status res0 400) (JsonErrors [MsgOnly ''User already exists'']),
          db = store, trace = [FindOne emo]\<rparr>"
    by (simp add: signup_try_def)
  with Some show ?thesis using found by blast
next
  case None
  show ?thesis
  proof (cases pwo)
    case pw_none: None
    with None have "signup_try L cfg amb fno uno emo pwo store =
         \<lparr>res = server_error res0, db = store,
          trace = [FindOne emo, GenSalt 10,
                   ConsoleError ''Illegal arguments: undefined, string'']\<rparr>"
      by (simp add: signup_try_def)
    with None pw_none show ?thesis using no_password by blast
  next
    case (Some pw)
    show ?thesis
    proof (cases "\<exists>fn un em. fno = Some fn \<and> uno = Some un \<and> emo = Some em")
      case False
      with None Some have "signup_try L cfg amb fno uno emo pwo store =
         \<lparr>res = server_error res0, db = store @ racing amb,
          trace = [FindOne emo, GenSalt 10, Hash pw (salt amb),
                   ConsoleError ''User validation failed'']\<rparr>"
        by (auto simp add: signup_try_def split: option.splits)
      with None Some show ?thesis using refused by blast
    next
      case True
      then obtain fn un em where args: "fno = Some fn" "uno = Some un" "emo = Some em"
        by blast
      with None have absent: "findOne store em = None"
        by (simp add: findOne_query_def)
      show ?thesis
      proof (cases "\<exists>v \<in> set (racing amb). u_email v = em")
        case True
        show ?thesis
          by (rule conflict [OF args Some absent True])
            (simp only: args Some signup_try_conflict [OF absent True])
      next
        case False
        then have no_rival: "\<forall>v \<in> set (racing amb). u_email v \<noteq> em" by blast
        show ?thesis
          by (rule saved [OF args Some absent no_rival])
            (simp only: args Some signup_try_saved [OF absent no_rival])
      qed
    qed
  qed
qed

lemma signin_try_cases:
  obtains (unknown) "findOne_query store emo = None"
      "signin_try L cfg amb emo pwo store =
         \<lparr>res = res_json (res_status res0 400) (JsonErrors [MsgOnly ''Invalid Credentials'']),
          db = store, trace = [FindOne emo]\<rparr>"
  | (no_password) u where "findOne_query store emo = Some u" "pwo = None"
      "signin_try L cfg amb emo pwo store =
         \<lparr>res = server_error res0, db = store,
          trace = [FindOne emo, ConsoleError ''Illegal arguments: undefined, string'']\<rparr>"
  | (mismatch) em pw u where "emo = Some em" "pwo = Some pw" "findOne store em = Some u"
      "\<not> bcrypt_compare L pw (u_password u)"
      "signin_try L cfg amb emo pwo store =
         \<lparr>res = res_json (res_status res0 400) (JsonErrors [MsgOnly ''Invalid Credentials'']),
          db = store, trace = [FindOne (Some em), Compare pw (u_password u)]\<rparr>"
  | (match) em pw u where "emo = Some em" "pwo = Some pw" "findOne store em = Some u"
      "bcrypt_compare L pw (u_password u)"
      "signin_try L cfg amb emo pwo store =
         issue cfg amb (u_id u) store [FindOne (Some em), Compare pw (u_password u)]"
proof (cases "findOne_query store emo")
  case None
  then have "signin_try L cfg amb emo pwo store =
         \<lparr>res = res_json (res_status res0 400) (JsonErrors [MsgOnly ''Invalid Credentials'']),
          db = store, trace = [FindOne emo]\<rparr>"
    by (simp add: signin_try_def)
  with None show ?thesis using unknown by blast
next
  case (Some u)
  then obtain em where em: "emo = Some em" "findOne store em = Some u"
    using findOne_query_Some by blast
  show ?thesis
  proof (cases pwo)
    case None
    with Some have "signin_try L cfg amb emo pwo store =
         \<lparr>res = server_error res0, db = store,
          trace = [FindOne emo, ConsoleError ''Illegal arguments: undefined, string'']\<rparr>"
      by (simp add: signin_try_def)
    with Some None show ?thesis using no_password by blast
  next
    case pw: (Some pw)
    show ?thesis
    proof (cases "bcrypt_compare L pw (u_password u)")
      case True
      show ?thesis
        by (rule match [OF em(1) pw em(2) True])
          (simp only: em(1) pw signin_try_match [OF em(2) True])
    next
      case False
      show ?thesis
        by (rule mismatch [OF em(1) pw em(2) False])
          (simp only: em(1) pw signin_try_mismatch [OF em(2) False])
    qed
  qed
qed

subsection \<open>The concrete inputs, evaluated\<close>

lemma ann_signup_fields:
  "body ann_signup ''fullName'' = Some ''Ann Lee''"
  "body ann_signup ''username'' = Some ''annlee''"
  "body ann_signup ''email'' = Some ''ann@example.com''"
  "body ann_signup ''password'' = Some ''secret1''"
  by (simp_all add: ann_signup_def body_in_body ann_fields_def)

lemma sample_isEmail_ann: "isEmail sample_libs ''ann@example.com''"
  by (simp add: sample_libs_def sample_isEmail_def)

lemma sample_isEmail_bob: "isEmail sample_libs ''bob@example.com''"
  by (simp add: sample_libs_def sample_isEmail_def)

lemma sample_isEmail_nope:
  "\<not> isEmail sample_libs ''nope''" "\<not> isEmail sample_libs ''nope2''"
  by (simp_all add: sample_libs_def sample_isEmail_def)

lemma ann_signup_valid: "validationResult sample_libs signup_checks ann_signup = []"
  by (simp add: ann_signup_def signup_errors_in_body ann_fields_def toString_def
        sample_isEmail_ann)

lemma blank_signup_fields:
  "body blank_signup ''fullName'' = Some ''   ''"
  "body blank_signup ''username'' = Some ''annlee''"
  "body blank_signup ''email'' = Some ''ann@example.com''"
  "body blank_signup ''password'' = Some ''secret1''"
  by (simp_all add: blank_signup_def body_in_body)

lemma blank_signup_valid: "validationResult sample_libs signup_checks blank_signup = []"
  by (simp add: blank_signup_def signup_errors_in_body toString_def sample_isEmail_ann)

lemma bad_signup_fields:
  "body bad_signup ''fullName'' = None"
  "body bad_signup ''username'' = Some []"
  "body bad_signup ''email'' = Some ''ann.example.com''"
  "body bad_signup ''password'' = Some ''abc''"
  by (simp_all add: bad_signup_def body_in_body)

lemma bad_signup_errors:
  "validationResult sample_libs signup_checks bad_signup =
     [FieldError None ''Full name is required'' ''fullName'' ''body'',
      FieldError (Some []) ''Username is required'' ''username'' ''body'',
      FieldError (Some ''ann.example.com'') ''Please include a valid email'' ''email'' ''body'',
      FieldError (Some ''abc'') ''Please enter a password with 6 or more characters''
        ''password'' ''body'']"
  by (simp add: bad_signup_def signup_errors_in_body toString_def sample_libs_def
        sample_isEmail_def)

lemma cookie_signup_errors:
  "validationResult sample_libs signup_checks cookie_signup =
     [FieldError (Some ''nope'') ''Please include a valid email'' ''email'' ''cookies'']"
  by (simp add: signup_errors_chains run_chain_single instances_unfold toLowerCase_fields
        cookie_signup_def ann_fields_def toString_def sample_isEmail_ann sample_isEmail_nope)


lemma header_signup_errors:
  "validationResult sample_libs signup_checks header_signup =
     [FieldError (Some []) ''Full name is required'' ''fullname'' ''headers'']"
  by (simp add: signup_errors_chains run_chain_single instances_unfold toLowerCase_fields
        header_signup_def ann_fields_def toString_def sample_isEmail_ann)

lemma ann_signin_fields:
  "body ann_signin ''email'' = Some ''ann@example.com''"
  "body ann_signin ''password'' = Some ''secret1''"
  by (simp_all add: ann_signin_def body_in_body)

lemma ann_wrong_fields:
  "body ann_wrong ''email'' = Some ''ann@example.com''"
  "body ann_wrong ''password'' = Some ''wrong''"
  by (simp_all add: ann_wrong_def body_in_body)

lemma bob_signin_fields:
  "body bob_signin ''email'' = Some ''bob@example.com''"
  "body bob_signin ''password'' = Some ''secret1''"
  by (simp_all add: bob_signin_def body_in_body)

lemma bad_signin_fields:
  "body bad_signin ''email'' = Some ''ann''"
  "body bad_signin ''password'' = None"
  by (simp_all add: bad_signin_def body_in_body)

lemma ann_signin_valid: "validationResult sample_libs signin_checks ann_signin = []"
  by (simp add: ann_signin_def signin_errors_in_body toString_def sample_isEmail_ann)

lemma ann_wrong_valid: "validationResult sample_libs signin_checks ann_wrong = []"
  by (simp add: ann_wrong_def signin_errors_in_body toString_def sample_isEmail_ann)

lemma bob_signin_valid: "validationResult sample_libs signin_checks bob_signin = []"
  by (simp add: bob_signin_def signin_errors_in_body toString_def sample_isEmail_bob)

lemma bad_signin_errors:
  "validationResult sample_libs signin_checks bad_signin =
     [FieldError (Some ''ann'') ''Please include a valid email'' ''email'' ''body'',
      FieldError None ''Password is required'' ''password'' ''body'']"
  by (simp add: bad_signin_def signin_errors_in_body toString_def sample_libs_def
        sample_isEmail_def)

lemma find_ann: "findOne [ann] ''ann@example.com'' = Some ann"
  by (simp add: findOne_def ann_def)

lemma find_bob: "findOne [ann] ''bob@example.com'' = None"
  by (simp add: findOne_def ann_def)

lemma find_empty: "findOne [] e = None"
  by (simp add: findOne_def)

lemma sample_compare_ann:
  "bcrypt_compare sample_libs ''secret1'' (u_password ann)"
  "\<not> bcrypt_compare sample_libs ''wrong'' (u_password ann)"
  by (simp_all add: sample_libs_def sample_compare_def ann_def)

lemma sample_hash_ann: "bcrypt_hash sample_libs ''secret1'' (salt sample_amb) = ''$abc$secret1''"
  by (simp add: sample_libs_def sample_hash_def sample_amb_def)

subsection \<open>The handlers at the concrete inputs\<close>

lemma ann_signup_runs:
  "signup sample_libs sample_cfg sample_amb ann_signup [] =
     \<lparr>res = \<lparr>status = 200,
              set_cookies = [SetCookie ''token''
                 \<lparr>payload_user_id = ''u1'', iat = 1000, exp = 87400, signed_with = ''s3cret''\<rparr>
                 True True],
              sent = Some (JsonToken
                 \<lparr>payload_user_id = ''u1'', iat = 1000, exp = 87400, signed_with = ''s3cret''\<rparr>)\<rparr>,
      db = [ann],
      trace = [FindOne (Some ''ann@example.com''), GenSalt 10, Hash ''secret1'' ''abc'',
               Save ann, Sign ''u1'']\<rparr>"
proof -
  have no_rival: "\<forall>v \<in> set (racing sample_amb). u_email v \<noteq> ''ann@example.com''"
    by (simp add: sample_amb_def)
  have secret: "JWT_SECRET sample_cfg = Some ''s3cret''" "''s3cret'' \<noteq> []"
    by (simp_all add: sample_cfg_def)
  have "signup sample_libs sample_cfg sample_amb ann_signup [] =
      signup_try sample_libs sample_cfg sample_amb (Some ''Ann Lee'') (Some ''annlee'')
        (Some ''ann@example.com'') (Some ''secret1'') []"
    by (rule signup_valid [OF ann_signup_valid ann_signup_fields])
  then show ?thesis
    by (simp add: signup_try_saved [OF find_empty no_rival] issue_ok [OF secret]
          sample_hash_ann expiresIn_24h_seconds ann_def)
      (simp add: sample_amb_def sample_cfg_def)
qed

lemma ann_signin_runs:
  "signin sample_libs sample_cfg sample_amb ann_signin [ann] =
     \<lparr>res = \<lparr>status = 200,
              set_cookies = [SetCookie ''token''
                 \<lparr>payload_user_id = ''u1'', iat = 1000, exp = 87400, signed_with = ''s3cret''\<rparr>
                 True True],
              sent = Some (JsonToken
                 \<lparr>payload_user_id = ''u1'', iat = 1000, exp = 87400, signed_with = ''s3cret''\<rparr>)\<rparr>,
      db = [ann],
      trace = [FindOne (Some ''ann@example.com''), Compare ''secret1'' ''$abc$secret1'',
               Sign ''u1'']\<rparr>"
proof -
  have secret: "JWT_SECRET sample_cfg = Some ''s3cret''" "''s3cret'' \<noteq> []"
    by (simp_all add: sample_cfg_def)
  have "signin sample_libs sample_cfg sample_amb ann_signin [ann] =
      signin_try sample_libs sample_cfg sample_amb (Some ''ann@example.com'')
        (Some ''secret1'') [ann]"
    by (rule signin_valid [OF ann_signin_valid ann_signin_fields])
  then show ?thesis
    by (simp add: signin_try_match [OF find_ann sample_compare_ann(1)] issue_ok [OF secret]
          expiresIn_24h_seconds)
      (simp add: sample_amb_def sample_cfg_def ann_def)
qed

lemma ann_signup_no_secret:
  "signup sample_libs no_secret_cfg sample_amb ann_signup [] =
     \<lparr>res = \<lparr>status = 500, set_cookies = [], sent = Some (Text ''Server error'')\<rparr>,
      db = [ann],
      trace = [FindOne (Some ''ann@example.com''), GenSalt 10, Hash ''secret1'' ''abc'',
               Save ann, Sign ''u1'', ConsoleError ''secretOrPrivateKey must have a value'']\<rparr>"
proof -
  have no_rival: "\<forall>v \<in> set (racing sample_amb). u_email v \<noteq> ''ann@example.com''"
    by (simp add: sample_amb_def)
  have fails: "jwt_sign (objectId sample_amb) (JWT_SECRET no_secret_cfg) (now sample_amb) =
      Inl ''secretOrPrivateKey must have a value''"
    by (simp add: jwt_sign_def no_secret_cfg_def)
  have "signup sample_libs no_secret_cfg sample_amb ann_signup [] =
      signup_try sample_libs no_secret_cfg sample_amb (Some ''Ann Lee'') (Some ''annlee'')
        (Some ''ann@example.com'') (Some ''secret1'') []"
    by (rule signup_valid [OF ann_signup_valid ann_signup_fields])
  then show ?thesis
    by (simp add: signup_try_saved [OF find_empty no_rival] issue_fails [OF fails]
          sample_hash_ann res_500 ann_def)
      (simp add: sample_amb_def)
qed

lemma ann_signin_no_secret:
  "signin sample_libs no_secret_cfg sample_amb ann_signin [ann] =
     \<lparr>res = \<lparr>status = 500, set_cookies = [], sent = Some (Text ''Server error'')\<rparr>,
      db = [ann],
      trace = [FindOne (Some ''ann@example.com''), Compare ''secret1'' ''$abc$secret1'',
               Sign ''u1'', ConsoleError ''secretOrPrivateKey must have a value'']\<rparr>"
proof -
  have fails: "jwt_sign (u_id ann) (JWT_SECRET no_secret_cfg) (now sample_amb) =
      Inl ''secretOrPrivateKey must have a value''"
    by (simp add: jwt_sign_def no_secret_cfg_def)
  have "signin sample_libs no_secret_cfg sample_amb ann_signin [ann] =
      signin_try sample_libs no_secret_cfg sample_amb (Some ''ann@example.com'')
        (Some ''secret1'') [ann]"
    by (rule signin_valid [OF ann_signin_valid ann_signin_fields])
  then show ?thesis
    by (simp add: signin_try_match [OF find_ann sample_compare_ann(1)] issue_fails [OF fails]
          res_500)
      (simp add: ann_def)
qed

subsection \<open>One chain against the given values of its field\<close>

lemma chain_not_empty_passes:
  "run_chain L req (Check f m [(True, IsEmpty)]) = [] \<longleftrightarrow>
   (\<forall>s \<in> set (given (places req f (toLowerCase f))). s \<noteq> [])"
  unfolding run_chain_single flagged_empty_iff
  using all_instances [of req f "\<lambda>s. s \<noteq> []"] by simp

lemma chain_email_passes:
  "run_chain L req (Check f m [(False, IsEmailV)]) = [] \<longleftrightarrow>
   (\<forall>s \<in> set (given (places req f (toLowerCase f))). isEmail L s)"
  unfolding run_chain_single flagged_empty_iff
  using all_instances [of req f "isEmail L"] by simp

lemma chain_length_passes:
  "run_chain L req (Check f m [(False, IsLength n)]) = [] \<longleftrightarrow>
   (\<forall>s \<in> set (given (places req f (toLowerCase f))). n \<le> length s)"
  unfolding run_chain_single flagged_empty_iff
  using all_instances [of req f "\<lambda>s. n \<le> length s"] by simp




lemma given_ann_signup:
  "given (places ann_signup ''fullName'' ''fullname'') = [''Ann Lee'']"
  "given (places ann_signup ''username'' ''username'') = [''annlee'']"
  "given (places ann_signup ''email'' ''email'') = [''ann@example.com'']"
  "given (places ann_signup ''password'' ''password'') = [''secret1'']"
  by (simp_all add: given_def places_def ann_signup_def in_body_def ann_fields_def)

lemma given_cookie_signup:
  "given (places cookie_signup ''email'' ''email'') = [''ann@example.com'', ''nope'']"
  by (simp add: given_def places_def cookie_signup_def ann_fields_def)


lemma given_header_signup:
  "given (places header_signup ''fullName'' ''fullname'') = [''Ann Lee'', []]"
  by (simp add: given_def places_def header_signup_def ann_fields_def)


section \<open>Properties\<close>

text \<open>
  C7. Signout, whatever the request holds and whether or not it carries a session cookie,
  clears the cookie \<^verbatim>\<open>token\<close> and answers status 200 with the body
  \<^verbatim>\<open>{msg: 'Signed out successfully'}\<close>; no other outcome exists, and the store is untouched.
\<close>

theorem signout_always_succeeds:
  "res (signout req store) =
     \<lparr>status = 200, set_cookies = [ClearCookie ''token''],
      sent = Some (JsonMsg ''Signed out successfully'')\<rparr>
   \<and> db (signout req store) = store \<and> trace (signout req store) = []"
  by (simp add: signout_def res_json_def res_clearCookie_def res0_def)

text \<open>
  C1. Two valid signin requests, one whose email matches no stored user and one whose email
  matches a stored user but whose password fails \<^verbatim>\<open>bcrypt.compare\<close>, receive the same
  response: status 400 and the single message \<^verbatim>\<open>Invalid Credentials\<close>, with no cookie.
  The two requests may meet different stores, configurations and environments.
\<close>

theorem signin_rejections_indistinguishable:
  assumes valid1: "validationResult L signin_checks r1 = []"
    and valid2: "validationResult L signin_checks r2 = []"
    and email1: "body r1 ''email'' = Some e1"
    and unknown: "findOne store1 e1 = None"
    and email2: "body r2 ''email'' = Some e2"
    and password2: "body r2 ''password'' = Some p2"
    and known: "findOne store2 e2 = Some u"
    and mismatch: "\<not> bcrypt_compare L p2 (u_password u)"
  shows "res (signin L cfg1 amb1 r1 store1) = res (signin L cfg2 amb2 r2 store2) \<and>
         res (signin L cfg1 amb1 r1 store1) =
           \<lparr>status = 400, set_cookies = [],
            sent = Some (JsonErrors [MsgOnly ''Invalid Credentials''])\<rparr>"
proof -
  have first: "res (signin L cfg1 amb1 r1 store1) =
      \<lparr>status = 400, set_cookies = [],
       sent = Some (JsonErrors [MsgOnly ''Invalid Credentials''])\<rparr>"
    by (simp add: signin_passed [OF valid1] email1 signin_try_unknown [OF unknown] res_400)
  have second: "res (signin L cfg2 amb2 r2 store2) =
      \<lparr>status = 400, set_cookies = [],
       sent = Some (JsonErrors [MsgOnly ''Invalid Credentials''])\<rparr>"
    by (simp add: signin_valid [OF valid2 email2 password2]
          signin_try_mismatch [OF known mismatch] res_400)
  from first second show ?thesis by simp
qed

text \<open>At Bob, who is not stored, and at Ann with a wrong password.\<close>

theorem signin_rejections_indistinguishable_witness:
  "validationResult sample_libs signin_checks bob_signin = [] \<and>
   validationResult sample_libs signin_checks ann_wrong = [] \<and>
   findOne [ann] ''bob@example.com'' = None \<and>
   findOne [ann] ''ann@example.com'' = Some ann \<and>
   \<not> bcrypt_compare sample_libs ''wrong'' (u_password ann) \<and>
   res (signin sample_libs sample_cfg sample_amb bob_signin [ann]) =
     res (signin sample_libs sample_cfg sample_amb ann_wrong [ann]) \<and>
   status (res (signin sample_libs sample_cfg sample_amb bob_signin [ann])) = 400"
proof -
  note both = signin_rejections_indistinguishable
      [OF bob_signin_valid ann_wrong_valid bob_signin_fields(1) find_bob
          ann_wrong_fields(1) ann_wrong_fields(2) find_ann sample_compare_ann(2),
       of sample_cfg sample_amb sample_cfg sample_amb]
  from both have same: "res (signin sample_libs sample_cfg sample_amb bob_signin [ann]) =
      res (signin sample_libs sample_cfg sample_amb ann_wrong [ann])"
    by (rule conjunct1)
  from both have "res (signin sample_libs sample_cfg sample_amb bob_signin [ann]) =
      \<lparr>status = 400, set_cookies = [],
       sent = Some (JsonErrors [MsgOnly ''Invalid Credentials''])\<rparr>"
    by (rule conjunct2)
  then have "status (res (signin sample_libs sample_cfg sample_amb bob_signin [ann])) = 400"
    by simp
  with same show ?thesis
    using bob_signin_valid ann_wrong_valid find_bob find_ann sample_compare_ann(2)
    by blast
qed

text \<open>
  C2. A signup or signin request whose validation yields a non-empty error list is answered
  with status 400 and that list; nothing else happens: the trace of effects is empty (no
  lookup, no salt, no hash, no save, no signing) and the store is unchanged.
\<close>

theorem invalid_request_no_effects:
  "(validationResult L signup_checks req \<noteq> [] \<longrightarrow>
      signup L cfg amb req store =
        \<lparr>res = \<lparr>status = 400, set_cookies = [],
                 sent = Some (JsonErrors (validationResult L signup_checks req))\<rparr>,
         db = store, trace = []\<rparr>) \<and>
   (validationResult L signin_checks req \<noteq> [] \<longrightarrow>
      signin L cfg amb req store =
        \<lparr>res = \<lparr>status = 400, set_cookies = [],
                 sent = Some (JsonErrors (validationResult L signin_checks req))\<rparr>,
         db = store, trace = []\<rparr>)"
  by (simp add: signup_invalid signin_invalid res_400)

text \<open>At a signup with four violated rules and a signin with two.\<close>

theorem invalid_request_no_effects_witness:
  "validationResult sample_libs signup_checks bad_signup \<noteq> [] \<and>
   status (res (signup sample_libs sample_cfg sample_amb bad_signup [ann])) = 400 \<and>
   db (signup sample_libs sample_cfg sample_amb bad_signup [ann]) = [ann] \<and>
   trace (signup sample_libs sample_cfg sample_amb bad_signup [ann]) = [] \<and>
   validationResult sample_libs signin_checks bad_signin \<noteq> [] \<and>
   status (res (signin sample_libs sample_cfg sample_amb bad_signin [ann])) = 400 \<and>
   db (signin sample_libs sample_cfg sample_amb bad_signin [ann]) = [ann] \<and>
   trace (signin sample_libs sample_cfg sample_amb bad_signin [ann]) = []"
  using invalid_request_no_effects [of sample_libs bad_signup sample_cfg sample_amb "[ann]"]
    invalid_request_no_effects [of sample_libs bad_signin sample_cfg sample_amb "[ann]"]
  by (simp add: bad_signup_errors bad_signin_errors)

text \<open>
  C10. Signin leaves the stored users as they were, whatever the request and whatever the
  outcome, and its trace holds no save.
\<close>

theorem signin_never_writes:
  "db (signin L cfg amb req store) = store \<and>
   (\<forall>u. Save u \<notin> set (trace (signin L cfg amb req store)))"
  by (simp add: signin_db signin_no_save)

text \<open>
  C3 (as amended). A signup that passes validation and the lookup, and whose save meets a
  user with the same email stored meanwhile by a concurrent request, is answered by the
  \<^verbatim>\<open>catch\<close> block: status 500 with the text \<^verbatim>\<open>Server error\<close>. No user is added (the
  store holds what it held plus the concurrent writes), and no token is signed.
\<close>

theorem signup_conflict_is_server_error:
  assumes valid: "validationResult L signup_checks req = []"
    and fields: "body req ''fullName'' = Some fn" "body req ''username'' = Some un"
      "body req ''email'' = Some em" "body req ''password'' = Some pw"
    and absent: "findOne store em = None"
    and rival: "\<exists>v \<in> set (racing amb). u_email v = em"
  shows "res (signup L cfg amb req store) =
           \<lparr>status = 500, set_cookies = [], sent = Some (Text ''Server error'')\<rparr> \<and>
         db (signup L cfg amb req store) = store @ racing amb \<and>
         (\<forall>u. Sign u \<notin> set (trace (signup L cfg amb req store)))"
  by (simp add: signup_valid [OF valid fields] signup_try_conflict [OF absent rival] res_500)

text \<open>At Ann's signup racing a rival with her email.\<close>

theorem signup_conflict_is_server_error_witness:
  "validationResult sample_libs signup_checks ann_signup = [] \<and>
   findOne [] ''ann@example.com'' = None \<and>
   (\<exists>v \<in> set (racing racing_amb). u_email v = ''ann@example.com'') \<and>
   status (res (signup sample_libs sample_cfg racing_amb ann_signup [])) = 500 \<and>
   db (signup sample_libs sample_cfg racing_amb ann_signup []) = [rival]"
proof -
  have rival_there: "\<exists>v \<in> set (racing racing_amb). u_email v = ''ann@example.com''"
    by (simp add: racing_amb_def rival_def)
  note main = signup_conflict_is_server_error
      [OF ann_signup_valid ann_signup_fields find_empty rival_there, of sample_cfg]
  from main have "status (res (signup sample_libs sample_cfg racing_amb ann_signup [])) = 500"
    by simp
  moreover from main have "db (signup sample_libs sample_cfg racing_amb ann_signup []) = [rival]"
    by (simp add: racing_amb_def)
  ultimately show ?thesis
    using ann_signup_valid find_empty rival_there by blast
qed

text \<open>The claim as stated, status 400 with \<^verbatim>\<open>User already exists\<close> on the conflict, fails
  at that race: validation passes, the lookup finds nobody, the save conflicts, and the
  response is the 500 of the \<^verbatim>\<open>catch\<close> block.\<close>

theorem signup_race_is_not_duplicate_error:
  "validationResult sample_libs signup_checks ann_signup = [] \<and>
   findOne [] ''ann@example.com'' = None \<and>
   save ([] @ racing racing_amb) ann = Inl ''E11000 duplicate key error'' \<and>
   res (signup sample_libs sample_cfg racing_amb ann_signup []) =
     \<lparr>status = 500, set_cookies = [], sent = Some (Text ''Server error'')\<rparr> \<and>
   res (signup sample_libs sample_cfg racing_amb ann_signup []) \<noteq>
     \<lparr>status = 400, set_cookies = [],
      sent = Some (JsonErrors [MsgOnly ''User already exists''])\<rparr>"
proof -
  have rival_there: "\<exists>v \<in> set (racing racing_amb). u_email v = ''ann@example.com''"
    by (simp add: racing_amb_def rival_def)
  have conflict: "save ([] @ racing racing_amb) ann = Inl ''E11000 duplicate key error''"
    by (simp add: save_def racing_amb_def rival_def ann_def)
  have "signup sample_libs sample_cfg racing_amb ann_signup [] =
      signup_try sample_libs sample_cfg racing_amb (Some ''Ann Lee'') (Some ''annlee'')
        (Some ''ann@example.com'') (Some ''secret1'') []"
    by (rule signup_valid [OF ann_signup_valid ann_signup_fields])
  then have "res (signup sample_libs sample_cfg racing_amb ann_signup []) =
      \<lparr>status = 500, set_cookies = [], sent = Some (Text ''Server error'')\<rparr>"
    by (simp add: signup_try_conflict [OF find_empty rival_there] res_500)
  with conflict show ?thesis
    by (simp add: ann_signup_valid find_empty)
qed

text \<open>
  C4 (as amended). Signup validation accepts a request exactly when every given value of
  each field satisfies the field's rule, the given values being those of the body, the
  cookies, the headers, the route parameters and the query, or the empty string when the
  field is in none of them: a \<^verbatim>\<open>fullName\<close> and a \<^verbatim>\<open>username\<close> must not be the empty
  string (nothing is trimmed), an \<^verbatim>\<open>email\<close> must pass \<^verbatim>\<open>isEmail\<close>, a \<^verbatim>\<open>password\<close> must
  have at least 6 characters.
\<close>

theorem signup_validation_exact:
  "validationResult L signup_checks req = [] \<longleftrightarrow>
     (\<forall>s \<in> set (given (places req ''fullName'' ''fullname'')). s \<noteq> []) \<and>
     (\<forall>s \<in> set (given (places req ''username'' ''username'')). s \<noteq> []) \<and>
     (\<forall>s \<in> set (given (places req ''email'' ''email'')). isEmail L s) \<and>
     (\<forall>s \<in> set (given (places req ''password'' ''password'')). 6 \<le> length s)"
  using chain_not_empty_passes [of L req "''fullName''" "''Full name is required''"]
    chain_not_empty_passes [of L req "''username''" "''Username is required''"]
    chain_email_passes [of L req "''email''" "''Please include a valid email''"]
    chain_length_passes [of L req "''password''"
      "''Please enter a password with 6 or more characters''" 6]
  by (simp add: signup_errors_chains toLowerCase_fields)

text \<open>At Ann's signup, which is accepted; with the cookie \<^verbatim>\<open>email=nope\<close> and with an
  empty header \<^verbatim>\<open>fullName\<close>, where it is rejected.\<close>

theorem signup_validation_exact_witness:
  "validationResult sample_libs signup_checks ann_signup = [] \<and>
   given (places ann_signup ''fullName'' ''fullname'') = [''Ann Lee''] \<and>
   given (places ann_signup ''password'' ''password'') = [''secret1''] \<and>
   validationResult sample_libs signup_checks cookie_signup \<noteq> [] \<and>
   given (places cookie_signup ''email'' ''email'') = [''ann@example.com'', ''nope''] \<and>
   \<not> isEmail sample_libs ''nope'' \<and>
   validationResult sample_libs signup_checks header_signup \<noteq> [] \<and>
   given (places header_signup ''fullName'' ''fullname'') = [''Ann Lee'', []]"
proof -
  have accepted: "validationResult sample_libs signup_checks ann_signup = []"
    using signup_validation_exact [of sample_libs ann_signup]
    by (simp add: given_ann_signup sample_isEmail_ann)
  have cookie: "validationResult sample_libs signup_checks cookie_signup \<noteq> []"
    using signup_validation_exact [of sample_libs cookie_signup]
    by (simp add: given_cookie_signup sample_isEmail_nope)
  have header: "validationResult sample_libs signup_checks header_signup \<noteq> []"
    using signup_validation_exact [of sample_libs header_signup]
    by (simp add: given_header_signup)
  from accepted cookie header show ?thesis
    using given_ann_signup(1,4) given_cookie_signup given_header_signup sample_isEmail_nope(1)
    by blast
qed

text \<open>The claim as stated fails twice. A \<^verbatim>\<open>fullName\<close> of three spaces is empty after
  trimming, yet validation reports nothing and the signup succeeds. And a request whose body
  satisfies every rule is rejected when a cookie named \<^verbatim>\<open>email\<close> holds no address.\<close>

theorem blank_fullName_is_accepted:
  "trimmed (toString (body blank_signup ''fullName'')) = [] \<and>
   validationResult sample_libs signup_checks blank_signup = [] \<and>
   status (res (signup sample_libs sample_cfg sample_amb blank_signup [])) = 200 \<and>
   body cookie_signup = body ann_signup \<and>
   validationResult sample_libs signup_checks ann_signup = [] \<and>
   validationResult sample_libs signup_checks cookie_signup =
     [FieldError (Some ''nope'') ''Please include a valid email'' ''email'' ''cookies''] \<and>
   status (res (signup sample_libs sample_cfg sample_amb cookie_signup [])) = 400"
proof -
  have blank: "trimmed (toString (body blank_signup ''fullName'')) = []"
    by (simp add: blank_signup_fields toString_def trimmed_def is_space_def)
  have no_rival: "\<forall>v \<in> set (racing sample_amb). u_email v \<noteq> ''ann@example.com''"
    by (simp add: sample_amb_def)
  have secret: "JWT_SECRET sample_cfg = Some ''s3cret''"
    by (simp add: sample_cfg_def)
  have ok: "status (res (signup sample_libs sample_cfg sample_amb blank_signup [])) = 200"
    by (simp add: signup_valid [OF blank_signup_valid blank_signup_fields]
          signup_try_saved [OF find_empty no_rival] issue_ok [OF secret])
  have same_body: "body cookie_signup = body ann_signup"
    by (simp add: cookie_signup_def ann_signup_def in_body_def)
  have "validationResult sample_libs signup_checks cookie_signup \<noteq> []"
    by (simp add: cookie_signup_errors)
  then have rejected: "status (res (signup sample_libs sample_cfg sample_amb cookie_signup [])) = 400"
    by (simp add: signup_invalid res_400)
  from blank ok same_body rejected show ?thesis
    using blank_signup_valid ann_signup_valid cookie_signup_errors by blast
qed







text \<open>
  C8. A signup or signin answered with status 200 has issued one token: its payload is
  the id of the user (the user just stored, for signup; the user found by the email, for
  signin), it expires 86400 seconds (24 hours) after \<^verbatim>\<open>iat\<close>, and it is signed with the
  configured, non-empty \<^verbatim>\<open>JWT_SECRET\<close>. That same token is the value of the one cookie
  set, named \<^verbatim>\<open>token\<close>, with \<^verbatim>\<open>httpOnly\<close> true and \<^verbatim>\<open>secure\<close> true exactly when
  \<^verbatim>\<open>NODE_ENV\<close> is \<^verbatim>\<open>production\<close>, and it is the \<^verbatim>\<open>token\<close> of the response body.
\<close>

theorem token_and_cookie_on_success:
  "(status (res (signup L cfg amb req store)) = 200 \<longrightarrow>
      (\<exists>k. JWT_SECRET cfg = Some k \<and> k \<noteq> [] \<and>
         res (signup L cfg amb req store) =
           \<lparr>status = 200,
            set_cookies = [SetCookie ''token''
               \<lparr>payload_user_id = objectId amb, iat = now amb, exp = now amb + 86400,
                signed_with = k\<rparr>
               True (NODE_ENV cfg = Some ''production'')],
            sent = Some (JsonToken
               \<lparr>payload_user_id = objectId amb, iat = now amb, exp = now amb + 86400,
                signed_with = k\<rparr>)\<rparr> \<and>
         (\<exists>u. u \<in> set (db (signup L cfg amb req store)) \<and> u_id u = objectId amb \<and>
              body req ''email'' = Some (u_email u)))) \<and>
   (status (res (signin L cfg amb req store)) = 200 \<longrightarrow>
      (\<exists>k em u. JWT_SECRET cfg = Some k \<and> k \<noteq> [] \<and>
         body req ''email'' = Some em \<and> findOne store em = Some u \<and>
         res (signin L cfg amb req store) =
           \<lparr>status = 200,
            set_cookies = [SetCookie ''token''
               \<lparr>payload_user_id = u_id u, iat = now amb, exp = now amb + 86400,
                signed_with = k\<rparr>
               True (NODE_ENV cfg = Some ''production'')],
            sent = Some (JsonToken
               \<lparr>payload_user_id = u_id u, iat = now amb, exp = now amb + 86400,
                signed_with = k\<rparr>)\<rparr>))"
proof (intro conjI impI)
  assume success: "status (res (signup L cfg amb req store)) = 200"
  show "\<exists>k. JWT_SECRET cfg = Some k \<and> k \<noteq> [] \<and>
         res (signup L cfg amb req store) =
           \<lparr>status = 200,
            set_cookies = [SetCookie ''token''
               \<lparr>payload_user_id = objectId amb, iat = now amb, exp = now amb + 86400,
                signed_with = k\<rparr>
               True (NODE_ENV cfg = Some ''production'')],
            sent = Some (JsonToken
               \<lparr>payload_user_id = objectId amb, iat = now amb, exp = now amb + 86400,
                signed_with = k\<rparr>)\<rparr> \<and>
         (\<exists>u. u \<in> set (db (signup L cfg amb req store)) \<and> u_id u = objectId amb \<and>
              body req ''email'' = Some (u_email u))"
  proof (cases rule: signup_cases [of L req cfg amb store])
    case invalid
    with success show ?thesis by (simp add: res_400)
  next
    case passed
    show ?thesis
    proof (cases rule: signup_try_cases [where store = store and L = L and cfg = cfg
          and amb = amb and fno = "body req ''fullName''" and uno = "body req ''username''"
          and emo = "body req ''email''" and pwo = "body req ''password''"])
      case (found x)
      with passed success show ?thesis by (simp add: res_400)
    next
      case no_password
      with passed success show ?thesis by (simp add: res_500)
    next
      case (refused pw)
      with passed success show ?thesis by (simp add: res_500)
    next
      case (conflict fn un em pw)
      with passed success show ?thesis by (simp add: res_500)
    next
      case (saved fn un em pw)
      let ?u = "\<lparr>u_id = objectId amb, u_fullName = fn, u_username = un, u_email = em,
                u_password = bcrypt_hash L pw (salt amb), u_createdAt = now amb\<rparr>"
      let ?tr = "[FindOne (Some em), GenSalt 10, Hash pw (salt amb), Save ?u]"
      show ?thesis
      proof (cases rule: issue_cases [of "objectId amb" cfg amb "store @ racing amb @ [?u]" ?tr])
        case (fails err)
        with saved passed success show ?thesis by (simp add: res_500)
      next
        case (ok k)
        have run: "signup L cfg amb req store =
            issue cfg amb (objectId amb) (store @ racing amb @ [?u]) ?tr"
          using passed(2) saved(7) by simp
        have member: "?u \<in> set (db (signup L cfg amb req store)) \<and> u_id ?u = objectId amb \<and>
            body req ''email'' = Some (u_email ?u)"
          using saved(3) by (simp add: run issue_db)
        have "res (signup L cfg amb req store) =
           \<lparr>status = 200,
            set_cookies = [SetCookie ''token''
               \<lparr>payload_user_id = objectId amb, iat = now amb, exp = now amb + 86400,
                signed_with = k\<rparr>
               True (NODE_ENV cfg = Some ''production'')],
            sent = Some (JsonToken
               \<lparr>payload_user_id = objectId amb, iat = now amb, exp = now amb + 86400,
                signed_with = k\<rparr>)\<rparr>"
          by (simp add: run ok(4) expiresIn_24h_seconds)
        with ok(1,2) member show ?thesis by blast
      qed
    qed
  qed
next
  assume success: "status (res (signin L cfg amb req store)) = 200"
  show "\<exists>k em u. JWT_SECRET cfg = Some k \<and> k \<noteq> [] \<and>
         body req ''email'' = Some em \<and> findOne store em = Some u \<and>
         res (signin L cfg amb req store) =
           \<lparr>status = 200,
            set_cookies = [SetCookie ''token''
               \<lparr>payload_user_id = u_id u, iat = now amb, exp = now amb + 86400,
                signed_with = k\<rparr>
               True (NODE_ENV cfg = Some ''production'')],
            sent = Some (JsonToken
               \<lparr>payload_user_id = u_id u, iat = now amb, exp = now amb + 86400,
                signed_with = k\<rparr>)\<rparr>"
  proof (cases rule: signin_cases [of L req cfg amb store])
    case invalid
    with success show ?thesis by (simp add: res_400)
  next
    case passed
    show ?thesis
    proof (cases rule: signin_try_cases [where store = store and L = L and cfg = cfg
          and amb = amb and emo = "body req ''email''" and pwo = "body req ''password''"])
      case unknown
      with passed success show ?thesis by (simp add: res_400)
    next
      case (no_password u)
      with passed success show ?thesis by (simp add: res_500)
    next
      case (mismatch em pw u)
      with passed success show ?thesis by (simp add: res_400)
    next
      case (match em pw u)
      let ?tr = "[FindOne (Some em), Compare pw (u_password u)]"
      show ?thesis
      proof (cases rule: issue_cases [of "u_id u" cfg amb store ?tr])
        case (fails err)
        with match passed success show ?thesis by (simp add: res_500)
      next
        case (ok k)
        have "res (signin L cfg amb req store) =
           \<lparr>status = 200,
            set_cookies = [SetCookie ''token''
               \<lparr>payload_user_id = u_id u, iat = now amb, exp = now amb + 86400,
                signed_with = k\<rparr>
               True (NODE_ENV cfg = Some ''production'')],
            sent = Some (JsonToken
               \<lparr>payload_user_id = u_id u, iat = now amb, exp = now amb + 86400,
                signed_with = k\<rparr>)\<rparr>"
          using passed(2) match(5) by (simp add: ok(4) expiresIn_24h_seconds)
        with ok(1,2) match(1,3) show ?thesis by blast
      qed
    qed
  qed
qed

text \<open>At Ann's signup on an empty store and her signin afterwards, in production.\<close>

theorem token_and_cookie_on_success_witness:
  "status (res (signup sample_libs sample_cfg sample_amb ann_signup [])) = 200 \<and>
   status (res (signin sample_libs sample_cfg sample_amb ann_signin [ann])) = 200 \<and>
   JWT_SECRET sample_cfg = Some ''s3cret'' \<and>
   NODE_ENV sample_cfg = Some ''production'' \<and>
   set_cookies (res (signup sample_libs sample_cfg sample_amb ann_signup [])) =
     [SetCookie ''token''
        \<lparr>payload_user_id = ''u1'', iat = 1000, exp = 87400, signed_with = ''s3cret''\<rparr>
        True True] \<and>
   sent (res (signin sample_libs sample_cfg sample_amb ann_signin [ann])) =
     Some (JsonToken
        \<lparr>payload_user_id = ''u1'', iat = 1000, exp = 87400, signed_with = ''s3cret''\<rparr>)"
proof -
  have up: "status (res (signup sample_libs sample_cfg sample_amb ann_signup [])) = 200"
    by (simp add: ann_signup_runs)
  have "in": "status (res (signin sample_libs sample_cfg sample_amb ann_signin [ann])) = 200"
    by (simp add: ann_signin_runs)
  have cfg: "JWT_SECRET sample_cfg = Some ''s3cret''" "NODE_ENV sample_cfg = Some ''production''"
    by (simp_all add: sample_cfg_def)
  have amb: "objectId sample_amb = ''u1''" "now sample_amb = 1000"
    by (simp_all add: sample_amb_def)
  note main = token_and_cookie_on_success [of sample_libs sample_cfg sample_amb ann_signup "[]"]
  from main up obtain k where
    "JWT_SECRET sample_cfg = Some k"
    "res (signup sample_libs sample_cfg sample_amb ann_signup []) =
       \<lparr>status = 200,
        set_cookies = [SetCookie ''token''
           \<lparr>payload_user_id = objectId sample_amb, iat = now sample_amb,
            exp = now sample_amb + 86400, signed_with = k\<rparr>
           True (NODE_ENV sample_cfg = Some ''production'')],
        sent = Some (JsonToken
           \<lparr>payload_user_id = objectId sample_amb, iat = now sample_amb,
            exp = now sample_amb + 86400, signed_with = k\<rparr>)\<rparr>"
    by blast
  then have cookie: "set_cookies (res (signup sample_libs sample_cfg sample_amb ann_signup [])) =
     [SetCookie ''token''
        \<lparr>payload_user_id = ''u1'', iat = 1000, exp = 87400, signed_with = ''s3cret''\<rparr>
        True True]"
    by (simp add: cfg amb)
  note main2 = token_and_cookie_on_success [of sample_libs sample_cfg sample_amb ann_signin "[ann]"]
  from main2 "in" obtain k em u where
    key: "JWT_SECRET sample_cfg = Some k" and mail: "body ann_signin ''email'' = Some em"
    and hit: "findOne [ann] em = Some u"
    and shape: "res (signin sample_libs sample_cfg sample_amb ann_signin [ann]) =
       \<lparr>status = 200,
        set_cookies = [SetCookie ''token''
           \<lparr>payload_user_id = u_id u, iat = now sample_amb,
            exp = now sample_amb + 86400, signed_with = k\<rparr>
           True (NODE_ENV sample_cfg = Some ''production'')],
        sent = Some (JsonToken
           \<lparr>payload_user_id = u_id u, iat = now sample_amb,
            exp = now sample_amb + 86400, signed_with = k\<rparr>)\<rparr>"
    by blast
  from mail have em: "em = ''ann@example.com''"
    by (simp add: ann_signin_fields)
  from hit have "u = ann"
    by (simp add: em find_ann)
  then have uid: "u_id u = ''u1''"
    by (simp add: ann_def)
  from key have k: "k = ''s3cret''"
    by (simp add: cfg)
  from shape have "sent (res (signin sample_libs sample_cfg sample_amb ann_signin [ann])) =
     Some (JsonToken
        \<lparr>payload_user_id = ''u1'', iat = 1000, exp = 87400, signed_with = ''s3cret''\<rparr>)"
    by (simp add: uid k amb)
  with up "in" cfg cookie show ?thesis by blast
qed

text \<open>
  C9. When a signup or signin reaches \<^verbatim>\<open>jwt.sign\<close> and signing fails (the secret is
  unset or empty), the response is status 500 with the text \<^verbatim>\<open>Server error\<close> and no
  cookie, and the trace holds exactly one signing attempt: nothing is retried.
\<close>

theorem signing_failure_is_server_error:
  "(Sign uid \<in> set (trace (signup L cfg amb req store)) \<and>
    jwt_sign uid (JWT_SECRET cfg) (now amb) = Inl err \<longrightarrow>
      res (signup L cfg amb req store) =
        \<lparr>status = 500, set_cookies = [], sent = Some (Text ''Server error'')\<rparr> \<and>
      length (filter is_sign (trace (signup L cfg amb req store))) = 1) \<and>
   (Sign uid \<in> set (trace (signin L cfg amb req store)) \<and>
    jwt_sign uid (JWT_SECRET cfg) (now amb) = Inl err \<longrightarrow>
      res (signin L cfg amb req store) =
        \<lparr>status = 500, set_cookies = [], sent = Some (Text ''Server error'')\<rparr> \<and>
      length (filter is_sign (trace (signin L cfg amb req store))) = 1)"
proof (rule conjI; rule impI)
  assume attempt: "Sign uid \<in> set (trace (signup L cfg amb req store)) \<and>
      jwt_sign uid (JWT_SECRET cfg) (now amb) = Inl err"
  show "res (signup L cfg amb req store) =
        \<lparr>status = 500, set_cookies = [], sent = Some (Text ''Server error'')\<rparr> \<and>
      length (filter is_sign (trace (signup L cfg amb req store))) = 1"
  proof (cases rule: signup_cases [of L req cfg amb store])
    case invalid
    with attempt show ?thesis by simp
  next
    case passed
    show ?thesis
    proof (cases rule: signup_try_cases [where store = store and L = L and cfg = cfg
          and amb = amb and fno = "body req ''fullName''" and uno = "body req ''username''"
          and emo = "body req ''email''" and pwo = "body req ''password''"])
      case (found x)
      with passed attempt show ?thesis by simp
    next
      case no_password
      with passed attempt show ?thesis by simp
    next
      case (refused pw)
      with passed attempt show ?thesis by simp
    next
      case (conflict fn un em pw)
      with passed attempt show ?thesis by simp
    next
      case (saved fn un em pw)
      let ?u = "\<lparr>u_id = objectId amb, u_fullName = fn, u_username = un, u_email = em,
                u_password = bcrypt_hash L pw (salt amb), u_createdAt = now amb\<rparr>"
      let ?tr = "[FindOne (Some em), GenSalt 10, Hash pw (salt amb), Save ?u]"
      have run: "signup L cfg amb req store =
          issue cfg amb (objectId amb) (store @ racing amb @ [?u]) ?tr"
        using passed(2) saved(7) by simp
      show ?thesis
      proof (cases rule: issue_cases [of "objectId amb" cfg amb "store @ racing amb @ [?u]" ?tr])
        case (fails e)
        then show ?thesis by (simp add: run res_500 is_sign_def)
      next
        case (ok k)
        with attempt show ?thesis by (simp add: jwt_sign_def)
      qed
    qed
  qed
next
  assume attempt: "Sign uid \<in> set (trace (signin L cfg amb req store)) \<and>
      jwt_sign uid (JWT_SECRET cfg) (now amb) = Inl err"
  show "res (signin L cfg amb req store) =
        \<lparr>status = 500, set_cookies = [], sent = Some (Text ''Server error'')\<rparr> \<and>
      length (filter is_sign (trace (signin L cfg amb req store))) = 1"
  proof (cases rule: signin_cases [of L req cfg amb store])
    case invalid
    with attempt show ?thesis by simp
  next
    case passed
    show ?thesis
    proof (cases rule: signin_try_cases [where store = store and L = L and cfg = cfg
          and amb = amb and emo = "body req ''email''" and pwo = "body req ''password''"])
      case unknown
      with passed attempt show ?thesis by simp
    next
      case (no_password u)
      with passed attempt show ?thesis by simp
    next
      case (mismatch em pw u)
      with passed attempt show ?thesis by simp
    next
      case (match em pw u)
      let ?tr = "[FindOne (Some em), Compare pw (u_password u)]"
      have run: "signin L cfg amb req store = issue cfg amb (u_id u) store ?tr"
        using passed(2) match(5) by simp
      show ?thesis
      proof (cases rule: issue_cases [of "u_id u" cfg amb store ?tr])
        case (fails e)
        then show ?thesis by (simp add: run res_500 is_sign_def)
      next
        case (ok k)
        with attempt show ?thesis by (simp add: jwt_sign_def)
      qed
    qed
  qed
qed

text \<open>At Ann's signup and signin in a process without \<^verbatim>\<open>JWT_SECRET\<close>.\<close>

theorem signing_failure_is_server_error_witness:
  "Sign ''u1'' \<in> set (trace (signup sample_libs no_secret_cfg sample_amb ann_signup [])) \<and>
   Sign ''u1'' \<in> set (trace (signin sample_libs no_secret_cfg sample_amb ann_signin [ann])) \<and>
   jwt_sign ''u1'' (JWT_SECRET no_secret_cfg) (now sample_amb) =
     Inl ''secretOrPrivateKey must have a value'' \<and>
   status (res (signup sample_libs no_secret_cfg sample_amb ann_signup [])) = 500 \<and>
   status (res (signin sample_libs no_secret_cfg sample_amb ann_signin [ann])) = 500 \<and>
   length (filter is_sign (trace (signup sample_libs no_secret_cfg sample_amb ann_signup []))) = 1"
proof -
  have up: "Sign ''u1'' \<in> set (trace (signup sample_libs no_secret_cfg sample_amb ann_signup []))"
    by (simp add: ann_signup_no_secret)
  have "in":
    "Sign ''u1'' \<in> set (trace (signin sample_libs no_secret_cfg sample_amb ann_signin [ann]))"
    by (simp add: ann_signin_no_secret)
  have fails: "jwt_sign ''u1'' (JWT_SECRET no_secret_cfg) (now sample_amb) =
      Inl ''secretOrPrivateKey must have a value''"
    by (simp add: jwt_sign_def no_secret_cfg_def)
  note main = signing_failure_is_server_error
      [of "''u1''" sample_libs no_secret_cfg sample_amb ann_signup "[]"
          "''secretOrPrivateKey must have a value''"]
  from main up fails have
    "res (signup sample_libs no_secret_cfg sample_amb ann_signup []) =
       \<lparr>status = 500, set_cookies = [], sent = Some (Text ''Server error'')\<rparr> \<and>
     length (filter is_sign (trace (signup sample_libs no_secret_cfg sample_amb ann_signup []))) = 1"
    by blast
  then have a: "status (res (signup sample_libs no_secret_cfg sample_amb ann_signup [])) = 500"
    and c: "length (filter is_sign (trace (signup sample_libs no_secret_cfg sample_amb ann_signup []))) = 1"
    by simp_all
  note main2 = signing_failure_is_server_error
      [of "''u1''" sample_libs no_secret_cfg sample_amb ann_signin "[ann]"
          "''secretOrPrivateKey must have a value''"]
  from main2 "in" fails have
    "res (signin sample_libs no_secret_cfg sample_amb ann_signin [ann]) =
       \<lparr>status = 500, set_cookies = [], sent = Some (Text ''Server error'')\<rparr>"
    by blast
  then have b: "status (res (signin sample_libs no_secret_cfg sample_amb ann_signin [ann])) = 500"
    by simp
  from up "in" fails a b c show ?thesis by blast
qed

end
